theory Spec2Isabelle
  imports Main "HOL-Library.Sublist"
begin

section \<open>The xpp Conan recipe (conanfile.py)\<close>

text \<open>
  The recipe is one Python class, \<^verbatim>\<open>XppConan\<close>, with declarative class attributes
  (\<^verbatim>\<open>settings\<close>, \<^verbatim>\<open>options\<close>, \<^verbatim>\<open>default_options\<close>, \<^verbatim>\<open>requires\<close>) and three methods
  (\<^verbatim>\<open>layout\<close>, \<^verbatim>\<open>generate\<close>, \<^verbatim>\<open>build\<close>). The methods mutate \<^verbatim>\<open>self\<close>; here they take
  the recipe and return it updated.
\<close>

subsection \<open>Python values and strings\<close>

text \<open>
  The values that occur in the recipe: \<^verbatim>\<open>None\<close>, the booleans and strings. A setting that
  the profile leaves unset is \<^verbatim>\<open>None\<close>.
\<close>

datatype py_value = PyNone | PyBool bool | PyStr string

text \<open>Python's \<^verbatim>\<open>str(v)\<close> on these values.\<close>

fun py_str :: "py_value \<Rightarrow> string" where
  "py_str PyNone = ''None''"
| "py_str (PyBool True) = ''True''"
| "py_str (PyBool False) = ''False''"
| "py_str (PyStr s) = s"

text \<open>
  \<^verbatim>\<open>s.lower()\<close>, on ASCII text: the letters \<^verbatim>\<open>A\<close> to \<^verbatim>\<open>Z\<close> go to \<^verbatim>\<open>a\<close> to \<^verbatim>\<open>z\<close>, every
  other character stays. (Python lowers by Unicode code point; the names of build types
  are ASCII, and a character of this model is a byte.)
\<close>

definition ascii_uppercase :: string where
  "ascii_uppercase = ''ABCDEFGHIJKLMNOPQRSTUVWXYZ''"

definition ascii_lowercase :: string where
  "ascii_lowercase = ''abcdefghijklmnopqrstuvwxyz''"

definition lower_char :: "char \<Rightarrow> char" where
  "lower_char c =
     (case map_of (zip ascii_uppercase ascii_lowercase) c of
        Some d \<Rightarrow> d
      | None \<Rightarrow> c)"

definition lower :: "string \<Rightarrow> string" where
  "lower s = map lower_char s"

subsection \<open>The recipe object\<close>

text \<open>
  \<^verbatim>\<open>settings = "os", "compiler", "build_type", "arch"\<close>: the four settings the recipe
  declares, each with the value the profile gives it.
\<close>

record settings_t =
  os :: py_value
  compiler :: py_value
  build_type :: py_value
  arch :: py_value

text \<open>\<^verbatim>\<open>self.folders\<close>: the three folders that \<^verbatim>\<open>layout\<close> assigns.\<close>

record folders_t =
  folders_build :: string
  folders_generators :: string
  folders_source :: string

text \<open>
  The recipe instance: the settings and option values of the profile it was created for,
  and its folders.
\<close>

record XppConan =
  settings :: settings_t
  option_values :: "(string \<times> py_value) list"
  folders :: folders_t

subsection \<open>layout\<close>

text \<open>
  \<^verbatim>\<open>
  def layout(self):
      build_type = str(self.settings.build_type).lower()
      self.folders.build = build_type
      self.folders.generators = f"{build_type}/generators"
      self.folders.source = "."
  \<close>
\<close>

definition layout :: "XppConan \<Rightarrow> XppConan" where
  "layout self =
     (let build_type = lower (py_str (build_type (settings self)))
      in self\<lparr>folders := (folders self)
           \<lparr>folders_build := build_type,
            folders_generators := build_type @ ''/generators'',
            folders_source := ''.''\<rparr>\<rparr>)"

subsection \<open>Paths\<close>

text \<open>
  The pieces of a string between the occurrences of a separator, as \<^verbatim>\<open>s.split(c)\<close> gives
  them: the empty string has the one piece \<^verbatim>\<open>""\<close>, and \<^verbatim>\<open>"debug/generators"\<close> split at
  \<^verbatim>\<open>/\<close> has the pieces \<^verbatim>\<open>"debug"\<close> and \<^verbatim>\<open>"generators"\<close>.
\<close>

fun split_on :: "char \<Rightarrow> string \<Rightarrow> string list" where
  "split_on c [] = [[]]"
| "split_on c (x # xs) =
     (if x = c then [] # split_on c xs
      else (case split_on c xs of
              [] \<Rightarrow> [[x]]
            | y # ys \<Rightarrow> (x # y) # ys))"

text \<open>
  What a POSIX path denotes: whether it starts at the root, and its components without
  the empty ones and without \<^verbatim>\<open>.\<close> (the \<^verbatim>\<open>parts\<close> of \<^verbatim>\<open>pathlib\<close>, the root left out).
\<close>

definition is_absolute :: "string \<Rightarrow> bool" where
  "is_absolute p = (case p of [] \<Rightarrow> False | c # _ \<Rightarrow> c = CHR ''/'')"

definition path_parts :: "string \<Rightarrow> string list" where
  "path_parts p = filter (\<lambda>s. s \<noteq> [] \<and> s \<noteq> ''.'') (split_on CHR ''/'' p)"

text \<open>
  A path lies strictly inside another when both start at the same place (the root, or the
  directory that relative paths are read from) and the parts of the outer one are a proper
  prefix of its own parts.
\<close>

definition sub_path :: "string \<Rightarrow> string \<Rightarrow> bool" where
  "sub_path inner outer =
     (is_absolute inner = is_absolute outer
      \<and> strict_prefix (path_parts outer) (path_parts inner))"

subsection \<open>Options\<close>





subsection \<open>Dependencies\<close>

definition requires :: "string list" where
  "requires =
     [''spdlog/1.14.1'',
      ''drogon/1.9.11'',
      ''nlohmann_json/3.11.3'',
      ''yaml-cpp/0.8.0'',
      ''protobuf/3.21.12'',
      ''sqlite3/3.44.0'',
      ''boost/1.83.0'',
      ''gtest/1.17.0'']"

text \<open>
  A reference is \<^verbatim>\<open>name/version\<close>: the name is what stands before the first \<^verbatim>\<open>/\<close>, the
  version spec what follows it.
\<close>

definition dep_name :: "string \<Rightarrow> string" where
  "dep_name r = takeWhile (\<lambda>c. c \<noteq> CHR ''/'') r"

definition dep_version :: "string \<Rightarrow> string" where
  "dep_version r = drop 1 (dropWhile (\<lambda>c. c \<noteq> CHR ''/'') r)"

subsection \<open>generate\<close>

text \<open>
  \<^verbatim>\<open>
  def generate(self):
      tc = CMakeToolchain(self)
      tc.generator = "Ninja"
      tc.generate()
      deps = CMakeDeps(self)
      deps.generate()
  \<close>
  \<^verbatim>\<open>CMakeToolchain\<close> and \<^verbatim>\<open>CMakeDeps\<close> are classes of \<^verbatim>\<open>conan.tools.cmake\<close>. The recipe
  only builds the two objects, sets the toolchain's generator and calls their
  \<^verbatim>\<open>generate\<close> methods; what these write is Conan's. The two methods are therefore
  parameters: each takes its object and the file system and either raises or returns
  the file system it leaves.
\<close>

record toolchain =
  tc_conanfile :: XppConan
  tc_generator :: "string option"

definition CMakeToolchain :: "XppConan \<Rightarrow> toolchain" where
  "CMakeToolchain self = \<lparr>tc_conanfile = self, tc_generator = None\<rparr>"

definition generate ::
  "(toolchain \<Rightarrow> 'fs \<Rightarrow> 'e + 'fs) \<Rightarrow> (XppConan \<Rightarrow> 'fs \<Rightarrow> 'e + 'fs) \<Rightarrow> XppConan \<Rightarrow> 'fs \<Rightarrow> 'e + 'fs" where
  "generate tc_generate deps_generate self fs =
     (let tc = CMakeToolchain self;
          tc = tc\<lparr>tc_generator := Some ''Ninja''\<rparr>
      in case tc_generate tc fs of
           Inl e \<Rightarrow> Inl e
         | Inr fs1 \<Rightarrow> deps_generate self fs1)"

subsection \<open>build\<close>

text \<open>
  The two external phases, and what one run of a phase yields.
\<close>

datatype phase = Configure | Build

record invocation_result =
  ir_phase :: phase
  exit_code :: int
  stdout :: string
  stderr :: string

datatype error = ExternalFailure phase invocation_result

text \<open>
  Modelled from the spec: the \<^verbatim>\<open>CMake\<close> helper of \<^verbatim>\<open>conan.tools.cmake\<close>, which is not part
  of the recipe. Each of its two methods runs one external phase as a subprocess in the
  build folder. The subprocess is the parameter \<open>ext\<close>: from the phase and the working
  directory it gives the exit code and the captured output. The list of phases run so
  far is the state: a run appends its phase. An exit code other than zero raises, which
  is the value \<open>Inl\<close>.
\<close>

type_synonym external = "phase \<Rightarrow> string \<Rightarrow> int \<times> string \<times> string"

definition cmake_run ::
  "external \<Rightarrow> XppConan \<Rightarrow> phase \<Rightarrow> phase list \<Rightarrow> (error + invocation_result) \<times> phase list" where
  "cmake_run ext self ph calls =
     (case ext ph (folders_build (folders self)) of
        (code, out, err) \<Rightarrow>
          (let r = \<lparr>ir_phase = ph, exit_code = code, stdout = out, stderr = err\<rparr>
           in (if code \<noteq> 0 then Inl (ExternalFailure ph r) else Inr r, calls @ [ph])))"

definition cmake_configure ::
  "external \<Rightarrow> XppConan \<Rightarrow> phase list \<Rightarrow> (error + invocation_result) \<times> phase list" where
  "cmake_configure ext self calls = cmake_run ext self Configure calls"

definition cmake_build ::
  "external \<Rightarrow> XppConan \<Rightarrow> phase list \<Rightarrow> (error + invocation_result) \<times> phase list" where
  "cmake_build ext self calls = cmake_run ext self Build calls"

text \<open>
  \<^verbatim>\<open>
  def build(self):
      cmake = CMake(self)
      cmake.configure()
      cmake.build()
  \<close>
  An exception of \<^verbatim>\<open>configure\<close> leaves the method at once; the results of the two calls
  are dropped.
\<close>

definition build :: "external \<Rightarrow> XppConan \<Rightarrow> phase list \<Rightarrow> (error + unit) \<times> phase list" where
  "build ext self calls =
     (case cmake_configure ext self calls of
        (Inl e, calls1) \<Rightarrow> (Inl e, calls1)
      | (Inr _, calls1) \<Rightarrow>
          (case cmake_build ext self calls1 of
             (Inl e, calls2) \<Rightarrow> (Inl e, calls2)
           | (Inr _, calls2) \<Rightarrow> (Inr (), calls2)))"

section \<open>Properties\<close>

subsection \<open>Strings and paths\<close>

lemma lower_eq_Nil: "lower s = [] \<longleftrightarrow> s = []"
  by (simp add: lower_def)



lemma lower_idem: "lower (lower s) = lower s"
  by (induction s) (auto simp: lower_def lower_char_def ascii_uppercase_def ascii_lowercase_def)

lemma split_on_nonempty: "split_on c xs \<noteq> []"
  by (induction xs) (auto split: list.splits)

lemma split_on_append: "split_on c (a @ c # b) = split_on c a @ split_on c b"
  by (induction a) (auto split: list.splits simp: split_on_nonempty)

lemma path_parts_append:
  "path_parts (b @ CHR ''/'' # ''generators'') = path_parts b @ [''generators'']"
  by (simp add: path_parts_def split_on_append)

lemma is_absolute_append: "b \<noteq> [] \<Longrightarrow> is_absolute (b @ r) = is_absolute b"
  by (cases b) (simp_all add: is_absolute_def)

subsection \<open>layout\<close>

lemma layout_build:
  "folders_build (folders (layout self)) = lower (py_str (build_type (settings self)))"
  by (simp add: layout_def Let_def)

lemma layout_generators:
  "folders_generators (folders (layout self))
     = lower (py_str (build_type (settings self))) @ CHR ''/'' # ''generators''"
  by (simp add: layout_def Let_def)



text \<open>
  Variants that differ only in the case of their letters resolve to the same folders.
\<close>

lemma layout_case_insensitive:
  "lower (py_str (build_type (settings p1))) = lower (py_str (build_type (settings p2)))
   \<Longrightarrow> folders p1 = folders p2 \<Longrightarrow> folders (layout p1) = folders (layout p2)"
  by (simp add: layout_def Let_def)


text \<open>
  C3. Two profiles whose variants are the same string in lower case get the same build
  folder, whatever their \<^verbatim>\<open>os\<close>, \<^verbatim>\<open>compiler\<close> and \<^verbatim>\<open>arch\<close> are: these three settings have
  no influence on the folders.
\<close>

theorem layout_collision:
  assumes "lower (py_str (build_type (settings p1))) = lower (py_str (build_type (settings p2)))"
  shows "folders_build (folders (layout p1)) = folders_build (folders (layout p2))"
  using assms by (simp add: layout_build)

theorem layout_collision_witness:
  "folders_build (folders (layout
        \<lparr>settings = \<lparr>os = PyStr ''Linux'', compiler = PyStr ''gcc'',
                     build_type = PyStr ''Debug'', arch = PyStr ''x86_64''\<rparr>,
         option_values = [(''shared'', PyBool False)],
         folders = \<lparr>folders_build = '''', folders_generators = '''', folders_source = ''''\<rparr>\<rparr>))
   = folders_build (folders (layout
        \<lparr>settings = \<lparr>os = PyStr ''Windows'', compiler = PyStr ''msvc'',
                     build_type = PyStr ''DEBUG'', arch = PyStr ''armv8''\<rparr>,
         option_values = [(''shared'', PyBool False)],
         folders = \<lparr>folders_build = '''', folders_generators = '''', folders_source = ''''\<rparr>\<rparr>))"
proof -
  have h: "lower (py_str (build_type (settings
        \<lparr>settings = \<lparr>os = PyStr ''Linux'', compiler = PyStr ''gcc'',
                     build_type = PyStr ''Debug'', arch = PyStr ''x86_64''\<rparr>,
         option_values = [(''shared'', PyBool False)],
         folders = \<lparr>folders_build = '''', folders_generators = '''', folders_source = ''''\<rparr>\<rparr>)))
    = lower (py_str (build_type (settings
        \<lparr>settings = \<lparr>os = PyStr ''Windows'', compiler = PyStr ''msvc'',
                     build_type = PyStr ''DEBUG'', arch = PyStr ''armv8''\<rparr>,
         option_values = [(''shared'', PyBool False)],
         folders = \<lparr>folders_build = '''', folders_generators = '''', folders_source = ''''\<rparr>\<rparr>)))"
    by (simp add: lower_def lower_char_def ascii_uppercase_def ascii_lowercase_def)
  show ?thesis by (rule layout_collision [OF h])
qed

text \<open>
  C4, as amended. For every profile whose variant is not the empty string, the generators
  folder lies strictly inside the build folder. (With the empty variant the build folder
  is the empty relative path and the generators folder is \<^verbatim>\<open>/generators\<close>, a path from
  the root.)
\<close>

theorem generators_inside_build:
  assumes "py_str (build_type (settings self)) \<noteq> []"
  shows "sub_path (folders_generators (folders (layout self)))
           (folders_build (folders (layout self)))"
proof -
  let ?b = "lower (py_str (build_type (settings self)))"
  from assms have ne: "?b \<noteq> []"
    by (simp add: lower_eq_Nil)
  have "is_absolute (?b @ CHR ''/'' # ''generators'') = is_absolute ?b"
    using ne by (rule is_absolute_append)
  moreover have "strict_prefix (path_parts ?b) (path_parts (?b @ CHR ''/'' # ''generators''))"
    by (simp add: path_parts_append strict_prefix_def)
  ultimately show ?thesis
    by (simp add: sub_path_def layout_build layout_generators)
qed

theorem generators_inside_build_witness:
  "sub_path
     (folders_generators (folders (layout
        \<lparr>settings = \<lparr>os = PyStr ''Linux'', compiler = PyStr ''gcc'',
                     build_type = PyStr ''Debug'', arch = PyStr ''x86_64''\<rparr>,
         option_values = [(''shared'', PyBool False)],
         folders = \<lparr>folders_build = '''', folders_generators = '''', folders_source = ''''\<rparr>\<rparr>)))
     (folders_build (folders (layout
        \<lparr>settings = \<lparr>os = PyStr ''Linux'', compiler = PyStr ''gcc'',
                     build_type = PyStr ''Debug'', arch = PyStr ''x86_64''\<rparr>,
         option_values = [(''shared'', PyBool False)],
         folders = \<lparr>folders_build = '''', folders_generators = '''', folders_source = ''''\<rparr>\<rparr>)))"
proof -
  have h: "py_str (build_type (settings
        \<lparr>settings = \<lparr>os = PyStr ''Linux'', compiler = PyStr ''gcc'',
                     build_type = PyStr ''Debug'', arch = PyStr ''x86_64''\<rparr>,
         option_values = [(''shared'', PyBool False)],
         folders = \<lparr>folders_build = '''', folders_generators = '''', folders_source = ''''\<rparr>\<rparr>)) \<noteq> []"
    by simp
  show ?thesis by (rule generators_inside_build [OF h])
qed

text \<open>
  C4 as stated fails at the profile with the empty variant: there the generators folder is
  not inside the build folder.
\<close>

theorem generators_outside_build_counterexample:
  "\<not> sub_path
     (folders_generators (folders (layout
        \<lparr>settings = \<lparr>os = PyStr ''Linux'', compiler = PyStr ''gcc'',
                     build_type = PyStr '''', arch = PyStr ''x86_64''\<rparr>,
         option_values = [(''shared'', PyBool False)],
         folders = \<lparr>folders_build = '''', folders_generators = '''', folders_source = ''''\<rparr>\<rparr>)))
     (folders_build (folders (layout
        \<lparr>settings = \<lparr>os = PyStr ''Linux'', compiler = PyStr ''gcc'',
                     build_type = PyStr '''', arch = PyStr ''x86_64''\<rparr>,
         option_values = [(''shared'', PyBool False)],
         folders = \<lparr>folders_build = '''', folders_generators = '''', folders_source = ''''\<rparr>\<rparr>)))"
  by (simp add: layout_def Let_def lower_def sub_path_def is_absolute_def)

text \<open>
  C5, as amended. \<open>layout\<close> puts no default name in the place of the variant: the build
  folder is always the variant in lower case, and it is the empty string exactly when the
  variant is the empty string. (An unset variant, \<^verbatim>\<open>None\<close>, has the string \<^verbatim>\<open>None\<close> and
  gives the folder \<^verbatim>\<open>none\<close>.)
\<close>

theorem layout_no_default:
  "folders_build (folders (layout self)) = lower (py_str (build_type (settings self)))
   \<and> (folders_build (folders (layout self)) = [] \<longleftrightarrow> py_str (build_type (settings self)) = [])"
  by (simp add: layout_build lower_eq_Nil)

text \<open>
  C5 as stated fails at the profile with the empty variant: its build folder is the empty
  string.
\<close>

theorem empty_variant_counterexample:
  "folders_build (folders (layout
        \<lparr>settings = \<lparr>os = PyStr ''Linux'', compiler = PyStr ''gcc'',
                     build_type = PyStr '''', arch = PyStr ''x86_64''\<rparr>,
         option_values = [(''shared'', PyBool False)],
         folders = \<lparr>folders_build = '''', folders_generators = '''', folders_source = ''''\<rparr>\<rparr>)) = []"
  by (simp add: layout_def Let_def lower_def)

subsection \<open>Options and dependencies\<close>



text \<open>
  C10. The declared dependency list is well formed: every entry has a name and a version
  spec that are not empty, and no two entries have the same name (names compared as they
  are written, case and all).
\<close>

theorem requires_well_formed:
  "list_all (\<lambda>r. dep_name r \<noteq> [] \<and> dep_version r \<noteq> []) requires
   \<and> distinct (map dep_name requires)"
  by (simp add: requires_def dep_name_def dep_version_def)

subsection \<open>generate\<close>

text \<open>
  What the recipe itself fixes in \<open>generate\<close>: the toolchain object is made from the
  recipe and carries the generator \<^verbatim>\<open>Ninja\<close>, the toolchain is generated first, and the
  dependency files are generated only when that did not raise.
\<close>

lemma generate_calls:
  "generate tc_generate deps_generate self fs =
     (case tc_generate \<lparr>tc_conanfile = self, tc_generator = Some ''Ninja''\<rparr> fs of
        Inl e \<Rightarrow> Inl e
      | Inr fs1 \<Rightarrow> deps_generate self fs1)"
  by (simp add: generate_def CMakeToolchain_def Let_def)

subsection \<open>build\<close>

text \<open>When the configure phase exits with zero, the build phase runs after it.\<close>

lemma build_runs_both:
  assumes "fst (ext Configure (folders_build (folders self))) = 0"
  shows "snd (build ext self calls) = calls @ [Configure, Build]"
  using assms
  by (auto simp: build_def cmake_configure_def cmake_build_def cmake_run_def Let_def
      split: prod.splits)

text \<open>
  C2. When the configure phase exits with a code other than zero, \<open>build\<close> stops with the
  failure of the configure phase, which carries that phase's result, and the build phase
  is not run: the only call added is the one of the configure phase, and the number of
  runs of the build phase is what it was.
\<close>

theorem build_stops_at_configure:
  assumes "fst (ext Configure (folders_build (folders self))) \<noteq> 0"
  shows "build ext self calls =
           (Inl (ExternalFailure Configure
                  \<lparr>ir_phase = Configure,
                   exit_code = fst (ext Configure (folders_build (folders self))),
                   stdout = fst (snd (ext Configure (folders_build (folders self)))),
                   stderr = snd (snd (ext Configure (folders_build (folders self))))\<rparr>),
            calls @ [Configure])
         \<and> count_list (snd (build ext self calls)) Build = count_list calls Build"
  using assms
  by (auto simp: build_def cmake_configure_def cmake_run_def Let_def split: prod.splits)

theorem build_stops_at_configure_witness:
  "build (\<lambda>ph wd. case ph of Configure \<Rightarrow> (1::int, ''configuring'', ''no compiler found'') | Build \<Rightarrow> (0, '''', ''''))
     (layout
        \<lparr>settings = \<lparr>os = PyStr ''Linux'', compiler = PyStr ''gcc'',
                     build_type = PyStr ''Release'', arch = PyStr ''x86_64''\<rparr>,
         option_values = [(''shared'', PyBool False)],
         folders = \<lparr>folders_build = '''', folders_generators = '''', folders_source = ''''\<rparr>\<rparr>) []
   = (Inl (ExternalFailure Configure
            \<lparr>ir_phase = Configure, exit_code = 1,
             stdout = ''configuring'', stderr = ''no compiler found''\<rparr>),
      [Configure])"
proof -
  let ?ext = "(\<lambda>ph wd. case ph of Configure \<Rightarrow> (1::int, ''configuring'', ''no compiler found'') | Build \<Rightarrow> (0, '''', ''''))"
  let ?self = "(layout
        \<lparr>settings = \<lparr>os = PyStr ''Linux'', compiler = PyStr ''gcc'',
                     build_type = PyStr ''Release'', arch = PyStr ''x86_64''\<rparr>,
         option_values = [(''shared'', PyBool False)],
         folders = \<lparr>folders_build = '''', folders_generators = '''', folders_source = ''''\<rparr>\<rparr>)"
  have h: "fst (?ext Configure (folders_build (folders ?self))) \<noteq> 0"
    by simp
  from build_stops_at_configure [of ?ext ?self "[]"] h show ?thesis
    by simp
qed

end
